theory Spec2Isabelle
  imports Main
begin

section \<open>Python values and exceptions\<close>

text \<open>
  Python \<open>str\<close> values are modelled as \<open>string\<close>: one \<open>char\<close> stands for one code
  point (code points below 256). A JSON number is held as an integer: none of the code
  below inspects a number, so a float takes the same branches as an integer.
\<close>

datatype json =
    JNull
  | JBool bool
  | JNum int
  | JStr string
  | JArr "json list"
  | JObj "(string \<times> json) list"

text \<open>
  \<open>JObj kvs\<close> lists the items of a Python \<open>dict\<close>; a key is looked up by \<open>map_of\<close>.
  A \<open>dict\<close> subscripted with a slice raises \<open>TypeError\<close> before Python 3.12 and
  \<open>KeyError\<close> from 3.12 on; both reach the same handlers, and the model names it
  \<open>TypeError\<close>.
\<close>

datatype py_exception = OSError | JSONDecodeError | AttributeError | TypeError | TimeoutExpired

text \<open>\<open>xs[start:]\<close> and \<open>xs[:stop]\<close> of a Python sequence.\<close>

definition slice_from :: "int \<Rightarrow> 'a list \<Rightarrow> 'a list" where
  "slice_from start xs =
     (let n = int (length xs);
          s = (if start < 0 then max 0 (start + n) else min start n)
      in drop (nat s) xs)"

definition slice_to :: "int \<Rightarrow> 'a list \<Rightarrow> 'a list" where
  "slice_to stop xs =
     (let n = int (length xs);
          e = (if stop < 0 then max 0 (stop + n) else min stop n)
      in take (nat e) xs)"

fun json_slice_from :: "int \<Rightarrow> json \<Rightarrow> py_exception + json" where
  "json_slice_from i (JArr xs) = Inr (JArr (slice_from i xs))"
| "json_slice_from i (JStr s) = Inr (JStr (slice_from i s))"
| "json_slice_from i _ = Inl TypeError"

fun json_slice_to :: "int \<Rightarrow> json \<Rightarrow> py_exception + json" where
  "json_slice_to i (JArr xs) = Inr (JArr (slice_to i xs))"
| "json_slice_to i (JStr s) = Inr (JStr (slice_to i s))"
| "json_slice_to i _ = Inl TypeError"

text \<open>\<open>d.get(key, default)\<close>: only a \<open>dict\<close> has the method.\<close>

fun dict_get :: "json \<Rightarrow> string \<Rightarrow> json \<Rightarrow> py_exception + json" where
  "dict_get (JObj kvs) k d = Inr (case map_of kvs k of None \<Rightarrow> d | Some v \<Rightarrow> v)"
| "dict_get _ k d = Inl AttributeError"

text \<open>The items a \<open>for\<close> loop visits: the elements of a list, the characters of a string.\<close>

fun iter_items :: "json \<Rightarrow> json list" where
  "iter_items (JArr xs) = xs"
| "iter_items (JStr s) = map (\<lambda>c. JStr [c]) s"
| "iter_items _ = []"

text \<open>\<open>pat in s\<close> for two strings: \<open>pat\<close> occurs in \<open>s\<close> as a contiguous run.\<close>

fun is_in :: "string \<Rightarrow> string \<Rightarrow> bool" where
  "is_in pat [] = (pat = [])"
| "is_in pat (c # cs) = (take (length pat) (c # cs) = pat \<or> is_in pat cs)"

section \<open>The command-line interface (cli.py)\<close>

text \<open>
  What \<open>print\<close> writes, one value per call. Lines whose text holds no data of the
  run (they carry emoji) are constructors; \<open>Rule n\<close> is the box-drawing character
  repeated \<open>n\<close> times; \<open>AuditLine ts action\<close> is \<open>f"[{ts}] {action}"\<close> with the two
  Python values it formats; \<open>ErrorLine e\<close> is the line that reports exception \<open>e\<close>.
\<close>

datatype cli_out =
    ConfigTitle
  | Rule nat
  | OutLine string
  | AuditTitle int
  | AuditLine json json
  | NoAuditTrail
  | ErrorLine py_exception

subsection \<open>audit_show\<close>

text \<open>
  The state of \<open>logs/audit-trail.json\<close> when it is read: absent; present but
  \<open>open\<close> or \<open>read\<close> raises; present with text \<open>json.load\<close> rejects; or the value
  \<open>json.load\<close> returns.
\<close>

datatype audit_file = Missing | Unreadable | Malformed | Document json

text \<open>The body of the loop: the line printed for one entry, or the exception raised.\<close>

definition audit_line :: "json \<Rightarrow> py_exception + cli_out" where
  "audit_line entry =
     (case dict_get entry ''timestamp'' (JStr ''?'') of
        Inl e \<Rightarrow> Inl e
      | Inr t \<Rightarrow>
          (case json_slice_to 19 t of
             Inl e \<Rightarrow> Inl e
           | Inr ts \<Rightarrow>
               (case dict_get entry ''action'' (JStr ''?'') of
                  Inl e \<Rightarrow> Inl e
                | Inr action \<Rightarrow> Inr (AuditLine ts action))))"

text \<open>The loop: what has been printed so far, and the exception that ended it, if any.\<close>

fun print_entries :: "json list \<Rightarrow> cli_out list \<Rightarrow> cli_out list \<times> py_exception option" where
  "print_entries [] out = (out, None)"
| "print_entries (entry # rest) out =
     (case audit_line entry of
        Inl e \<Rightarrow> (out, Some e)
      | Inr l \<Rightarrow> print_entries rest (out @ [l]))"

text \<open>\<open>audit_show(limit)\<close>: everything printed, and the value returned.\<close>

definition audit_show :: "audit_file \<Rightarrow> int \<Rightarrow> cli_out list \<times> int" where
  "audit_show f limit =
     (case f of
        Missing \<Rightarrow> ([NoAuditTrail], 1)
      | Unreadable \<Rightarrow> ([ErrorLine OSError], 1)
      | Malformed \<Rightarrow> ([ErrorLine JSONDecodeError], 1)
      | Document data \<Rightarrow>
          (let out = [AuditTitle limit, Rule 80] in
           case dict_get data ''entries'' (JArr []) of
             Inl e \<Rightarrow> (out @ [ErrorLine e], 1)
           | Inr all_entries \<Rightarrow>
               (case json_slice_from (- limit) all_entries of
                  Inl e \<Rightarrow> (out @ [ErrorLine e], 1)
                | Inr entries \<Rightarrow>
                    (case print_entries (iter_items entries) out of
                       (out', Some e) \<Rightarrow> (out' @ [ErrorLine e], 1)
                     | (out', None) \<Rightarrow> (out', 0)))))"

text \<open>The number of entry lines among what was printed.\<close>

definition entries_printed :: "cli_out list \<Rightarrow> nat" where
  "entries_printed out = length (filter (\<lambda>l. case l of AuditLine _ _ \<Rightarrow> True | _ \<Rightarrow> False) out)"

subsection \<open>config_show\<close>

definition config_keys :: "string list" where
  "config_keys =
     [''CHAIN_ID'', ''BOT_PRIVATE_KEY'', ''BASE_RPC_URL'', ''OPENAI_API_KEY'',
      ''POLLING_INTERVAL'', ''MAX_GAS_PRICE_GWEI'', ''AUTO_APPROVE_GAS'']"

text \<open>\<open>os.getenv(key, default)\<close> over the process environment, a map from names to values.\<close>

definition getenv :: "(string \<rightharpoonup> string) \<Rightarrow> string \<Rightarrow> string \<Rightarrow> string" where
  "getenv env key d = (case env key of None \<Rightarrow> d | Some v \<Rightarrow> v)"

text \<open>
  The value as shown: \<open>value[:4] + '...' if value != '(not set)' else value\<close> under
  \<open>if 'KEY' in key or 'PRIVATE' in key\<close>.
\<close>

definition masked :: "string \<Rightarrow> bool" where
  "masked key = (is_in ''KEY'' key \<or> is_in ''PRIVATE'' key)"

definition shown_value :: "string \<Rightarrow> string \<Rightarrow> string" where
  "shown_value key v =
     (if masked key then (if v \<noteq> ''(not set)'' then slice_to 4 v @ ''...'' else v) else v)"

text \<open>\<open>f"{key:25} {value}"\<close>: the key left-aligned in a field of 25, a space, the value.\<close>

definition config_line :: "string \<Rightarrow> string \<Rightarrow> string" where
  "config_line key v = key @ replicate (25 - length key) CHR '' '' @ '' '' @ v"

definition config_show :: "(string \<rightharpoonup> string) \<Rightarrow> cli_out list \<times> int" where
  "config_show env =
     ([ConfigTitle, Rule 50] @
      map (\<lambda>key. OutLine (config_line key (shown_value key (getenv env key ''(not set)''))))
        config_keys,
      0)"

section \<open>Text streams\<close>

text \<open>
  \<open>f.readlines()\<close> and iteration over a text stream: the text cut after every line
  feed, each line keeping its line feed, a last line without one kept as it is. The
  text is what the stream yields after decoding and newline translation.
\<close>

fun readlines_from :: "string \<Rightarrow> string \<Rightarrow> string list" where
  "readlines_from cur [] = (if cur = [] then [] else [cur])"
| "readlines_from cur (c # cs) =
     (if c = CHR 0x0A then (cur @ [c]) # readlines_from [] cs
      else readlines_from (cur @ [c]) cs)"

definition readlines :: "string \<Rightarrow> string list" where
  "readlines s = readlines_from [] s"

text \<open>\<open>str.isspace\<close> on the code points below 256, and \<open>str.rstrip()\<close>, \<open>str.strip()\<close>.\<close>

definition is_space :: "char \<Rightarrow> bool" where
  "is_space c =
     (let n = of_char c :: nat
      in (9 \<le> n \<and> n \<le> 13) \<or> (28 \<le> n \<and> n \<le> 32) \<or> n = 133 \<or> n = 160)"

definition rstrip :: "string \<Rightarrow> string" where
  "rstrip s = rev (dropWhile is_space (rev s))"

definition strip :: "string \<Rightarrow> string" where
  "strip s = dropWhile is_space (rstrip s)"

section \<open>The dashboard's log view (main.py, DashboardTab)\<close>

text \<open>A log file when it is read: absent, present but the read raises, or its text.\<close>

datatype text_file = Absent | ReadError | Text string

text \<open>A text widget shows plain text, or the message that reports an exception.\<close>

datatype display = Plain string | ErrorReading py_exception

record dashboard_tab =
  logs_text :: display
  audit_text :: display

text \<open>
  \<open>DashboardTab.refresh_logs\<close>, on \<open>bot.log\<close> and \<open>audit-trail.txt\<close>. One handler
  covers both reads, and it writes its message to the log view.
\<close>

definition DashboardTab_refresh_logs ::
    "text_file \<Rightarrow> text_file \<Rightarrow> dashboard_tab \<Rightarrow> dashboard_tab" where
  "DashboardTab_refresh_logs bot_log audit_log tab =
     (case bot_log of
        ReadError \<Rightarrow> tab\<lparr>logs_text := ErrorReading OSError\<rparr>
      | _ \<Rightarrow>
          (let tab1 =
             (case bot_log of
                Text c \<Rightarrow> tab\<lparr>logs_text := Plain (concat (slice_from (- 50) (readlines c)))\<rparr>
              | _ \<Rightarrow> tab)
           in case audit_log of
                Absent \<Rightarrow> tab1
              | ReadError \<Rightarrow> tab1\<lparr>logs_text := ErrorReading OSError\<rparr>
              | Text c \<Rightarrow>
                  tab1\<lparr>audit_text := Plain (concat (slice_from (- 30) (readlines c)))\<rparr>))"

text \<open>
  The spec's LogTailer, written from the spec's words to compare the code with: a poll
  reads from the cursor's offset, returns the whole lines found there and leaves a
  trailing partial line unread; a file shorter than the offset resets the cursor.
\<close>

definition spec_poll :: "nat \<Rightarrow> string \<Rightarrow> string list \<times> nat" where
  "spec_poll offset content =
     (if length content < offset then ([], 0)
      else
        (let whole = filter (\<lambda>l. l \<noteq> [] \<and> last l = CHR 0x0A) (readlines (drop offset content))
         in (whole, offset + length (concat whole))))"

section \<open>The monitor's audit view (poidh_gui.py, MonitorTab)\<close>

datatype status = Offline | Online

datatype colour = DefaultColour | Red | Green

text \<open>
  \<open>ListItem ts action c\<close> is the item with text \<open>f"[{ts}] {action}"\<close> and
  foreground \<open>c\<close>.
\<close>

datatype list_item = ListItem json json colour

record monitor_tab =
  log_list :: "list_item list"
  status_label :: status

text \<open>\<open>s in v\<close> for a string \<open>s\<close> and a Python value \<open>v\<close>.\<close>

fun py_contains :: "string \<Rightarrow> json \<Rightarrow> py_exception + bool" where
  "py_contains s (JStr t) = Inr (is_in s t)"
| "py_contains s (JArr xs) = Inr (JStr s \<in> set xs)"
| "py_contains s (JObj kvs) = Inr (s \<in> set (map fst kvs))"
| "py_contains s _ = Inl TypeError"

text \<open>The colour test of one entry: \<open>if 'ERROR' in ... elif 'SUCCESS' in ...\<close>.\<close>

definition item_colour :: "json \<Rightarrow> py_exception + colour" where
  "item_colour entry =
     (case dict_get entry ''action'' (JStr []) of
        Inl e \<Rightarrow> Inl e
      | Inr a \<Rightarrow>
          (case py_contains ''ERROR'' a of
             Inl e \<Rightarrow> Inl e
           | Inr True \<Rightarrow> Inr Red
           | Inr False \<Rightarrow>
               (case py_contains ''SUCCESS'' a of
                  Inl e \<Rightarrow> Inl e
                | Inr True \<Rightarrow> Inr Green
                | Inr False \<Rightarrow> Inr DefaultColour)))"

definition monitor_item :: "json \<Rightarrow> py_exception + list_item" where
  "monitor_item entry =
     (case dict_get entry ''timestamp'' (JStr ''?'') of
        Inl e \<Rightarrow> Inl e
      | Inr ts \<Rightarrow>
          (case dict_get entry ''action'' (JStr ''?'') of
             Inl e \<Rightarrow> Inl e
           | Inr action \<Rightarrow>
               (case item_colour entry of
                  Inl e \<Rightarrow> Inl e
                | Inr c \<Rightarrow> Inr (ListItem ts action c))))"

fun add_items :: "json list \<Rightarrow> list_item list \<Rightarrow> list_item list \<times> py_exception option" where
  "add_items [] items = (items, None)"
| "add_items (entry # rest) items =
     (case monitor_item entry of
        Inl e \<Rightarrow> (items, Some e)
      | Inr it \<Rightarrow> add_items rest (items @ [it]))"

text \<open>The bare \<open>except:\<close> of \<open>refresh_logs\<close>.\<close>

definition set_offline :: "monitor_tab \<Rightarrow> monitor_tab" where
  "set_offline tab =
     (if status_label tab \<noteq> Offline then tab\<lparr>status_label := Offline\<rparr> else tab)"

text \<open>\<open>MonitorTab.refresh_logs\<close>, on \<open>logs/audit-trail.json\<close>.\<close>

definition MonitorTab_refresh_logs :: "audit_file \<Rightarrow> monitor_tab \<Rightarrow> monitor_tab" where
  "MonitorTab_refresh_logs f tab =
     (case f of
        Missing \<Rightarrow> tab
      | Unreadable \<Rightarrow> set_offline tab
      | Malformed \<Rightarrow> set_offline tab
      | Document data \<Rightarrow>
          (case dict_get data ''entries'' (JArr []) of
             Inl e \<Rightarrow> set_offline tab
           | Inr all_entries \<Rightarrow>
               (case json_slice_from (- 20) all_entries of
                  Inl e \<Rightarrow> set_offline tab
                | Inr entries \<Rightarrow>
                    (let shown = length (log_list tab) in
                     if shown < length (iter_items entries) then
                       (case add_items (slice_from (int shown) (iter_items entries))
                               (log_list tab) of
                          (items, Some e) \<Rightarrow> set_offline (tab\<lparr>log_list := items\<rparr>)
                        | (items, None) \<Rightarrow> tab\<lparr>log_list := items, status_label := Online\<rparr>)
                     else tab\<lparr>status_label := Online\<rparr>))))"

section \<open>Child processes\<close>

text \<open>
  What a call into the subprocess library does: it returns a value, it raises an
  exception, whose text is kept, or it never returns.
\<close>

datatype 'a call = Done 'a | Raise string | Never

text \<open>
  What a run of \<open>ProcessManager.run\<close> does: the signals it emits, in order, and
  whether it returns after them or blocks for ever.
\<close>

datatype 'a outcome = Returns (emitted: "'a list") | Blocked (emitted: "'a list")

text \<open>
  \<open>SpawnError msg\<close> is a \<open>subprocess.Popen\<close> call that raises an exception whose
  text is \<open>msg\<close>; \<open>Spawned c\<close> is one that returns, with \<open>c\<close> what the later calls
  on the handle do.
\<close>

datatype 'c spawn = SpawnError string | Spawned 'c

section \<open>The agent tab and its process runner (main.py)\<close>

text \<open>
  The calls of \<open>run\<close> on a spawned child, which has a pipe for each of its two
  streams: the lines the iteration over the standard output yields, how the
  iteration ends (\<open>Done ()\<close>: the stream is closed), what \<open>wait()\<close> does, and
  what \<open>stderr.read()\<close> does.
\<close>

record main_child =
  out_lines :: "string list"
  out_end :: "unit call"
  wait_result :: "int call"
  err_read :: "string call"

text \<open>The three signals of \<open>ProcessManager\<close>; \<open>finished_signal\<close> is \<open>pyqtSignal()\<close>.\<close>

datatype main_signal = MOutput string | MError string | MFinished

text \<open>
  \<open>ProcessManager.run\<close>. Every exception raised in the \<open>try\<close> block, by the spawn,
  by a read or by \<open>wait\<close>, reaches the one handler, which emits the error and the
  finished signal.
\<close>

definition main_ProcessManager_run :: "main_child spawn \<Rightarrow> main_signal outcome" where
  "main_ProcessManager_run sp =
     (case sp of
        SpawnError msg \<Rightarrow> Returns [MError msg, MFinished]
      | Spawned c \<Rightarrow>
          (let outs = map (\<lambda>line. MOutput (strip line)) (out_lines c)
           in case out_end c of
                Never \<Rightarrow> Blocked outs
              | Raise msg \<Rightarrow> Returns (outs @ [MError msg, MFinished])
              | Done _ \<Rightarrow>
                  (case wait_result c of
                     Never \<Rightarrow> Blocked outs
                   | Raise msg \<Rightarrow> Returns (outs @ [MError msg, MFinished])
                   | Done rc \<Rightarrow>
                       if rc \<noteq> 0 then
                         (case err_read c of
                            Never \<Rightarrow> Blocked outs
                          | Raise msg \<Rightarrow> Returns (outs @ [MError msg, MFinished])
                          | Done stderr \<Rightarrow>
                              Returns (outs @ (if stderr \<noteq> [] then [MError stderr] else []) @
                                       [MFinished]))
                       else Returns (outs @ [MFinished]))))"

text \<open>
  The paragraphs of the output area: the text \<open>setText\<close> puts there for a command,
  a line of output, a reported error, and the closing line of \<open>on_process_finished\<close>.
\<close>

datatype block = RunningText string | OutputText string | ErrorText string | CompletedText

text \<open>
  A \<open>ProcessManager\<close> object holds its command (its directory is always the default).
  \<open>threads\<close> is the Qt runtime's side of the tab: every thread \<open>start()\<close> has
  started, in order, each running until its \<open>finished_signal\<close> has been delivered.
\<close>

datatype thread_state = ThreadRunning | ThreadFinished

record process_manager =
  command :: "string list"

record agent_tab =
  output_text :: "block list"
  process_manager :: "process_manager option"
  threads :: "(process_manager \<times> thread_state) list"

text \<open>\<open>" ".join(command)\<close>.\<close>

fun join_space :: "string list \<Rightarrow> string" where
  "join_space [] = []"
| "join_space [w] = w"
| "join_space (w # ws) = w @ '' '' @ join_space ws"

text \<open>\<open>AgentTab.run_npm_command\<close>.\<close>

definition run_npm_command :: "string list \<Rightarrow> agent_tab \<Rightarrow> agent_tab" where
  "run_npm_command cmd tab =
     (let pm = \<lparr>command = cmd\<rparr>
      in tab\<lparr>output_text := [RunningText (join_space cmd)],
             process_manager := Some pm,
             threads := threads tab @ [(pm, ThreadRunning)]\<rparr>)"

definition finish_thread :: "nat \<Rightarrow> ('a \<times> thread_state) list \<Rightarrow> ('a \<times> thread_state) list" where
  "finish_thread i ths = (if i < length ths then ths[i := (fst (ths ! i), ThreadFinished)] else ths)"

text \<open>
  The slots \<open>append_output\<close>, \<open>append_error\<close> and \<open>on_process_finished\<close>, on a signal
  of the thread started \<open>i\<close>-th.
\<close>

definition AgentTab_receive :: "nat \<Rightarrow> main_signal \<Rightarrow> agent_tab \<Rightarrow> agent_tab" where
  "AgentTab_receive i sig tab =
     (case sig of
        MOutput t \<Rightarrow> tab\<lparr>output_text := output_text tab @ [OutputText t]\<rparr>
      | MError t \<Rightarrow> tab\<lparr>output_text := output_text tab @ [ErrorText t]\<rparr>
      | MFinished \<Rightarrow>
          tab\<lparr>output_text := output_text tab @ [CompletedText],
              threads := finish_thread i (threads tab)\<rparr>)"

text \<open>The threads of a tab that have been started and have not finished.\<close>

definition running_jobs :: "('a \<times> thread_state) list \<Rightarrow> nat" where
  "running_jobs ths = length (filter (\<lambda>t. snd t = ThreadRunning) ths)"

section \<open>The process runner of poidh_gui.py\<close>

text \<open>The three signals of \<open>ProcessManager\<close>; \<open>finished_signal\<close> is \<open>pyqtSignal(int)\<close>.\<close>

datatype gui_signal = GOutput string | GError string | GFinished int

text \<open>
  The calls of \<open>run\<close> on a spawned child, whose two streams share one pipe
  (\<open>stderr=subprocess.STDOUT\<close>): the lines \<open>readline\<close> returns, how the reading
  ends (\<open>Done ()\<close>: the stream is closed), and what \<open>wait()\<close> does.
\<close>

record gui_child =
  merged_lines :: "string list"
  merged_end :: "unit call"
  wait_gui :: "int call"

text \<open>
  The loop over \<open>iter(self.process.stdout.readline, '')\<close>: the signals emitted, and
  whether the loop was left before the reading ended. \<open>flag i\<close> is the value of
  \<open>self.running\<close> that the \<open>i\<close>-th pass of the loop reads; \<open>stop\<close>, called from
  another thread, is what clears it. An empty line is the sentinel of \<open>iter\<close>.
\<close>

fun stream_lines :: "(nat \<Rightarrow> bool) \<Rightarrow> nat \<Rightarrow> string list \<Rightarrow> gui_signal list \<times> bool" where
  "stream_lines flag i [] = ([], False)"
| "stream_lines flag i (line # rest) =
     (if line = [] then ([], True)
      else if \<not> flag i then ([], True)
      else (case stream_lines flag (Suc i) rest of
              (evs, left) \<Rightarrow> (GOutput (rstrip line) # evs, left)))"

text \<open>
  \<open>ProcessManager.run\<close>. Every exception raised in the \<open>try\<close> block, by the spawn,
  by a read or by \<open>wait\<close>, reaches the one handler, which emits the error and the
  finished signal with -1.
\<close>

definition gui_ProcessManager_run :: "(nat \<Rightarrow> bool) \<Rightarrow> gui_child spawn \<Rightarrow> gui_signal outcome" where
  "gui_ProcessManager_run flag sp =
     (case sp of
        SpawnError msg \<Rightarrow> Returns [GError (''Error: '' @ msg), GFinished (- 1)]
      | Spawned c \<Rightarrow>
          (case stream_lines flag 0 (merged_lines c) of
             (evs, left) \<Rightarrow>
               (case (if left then Done () else merged_end c) of
                  Never \<Rightarrow> Blocked evs
                | Raise msg \<Rightarrow> Returns (evs @ [GError (''Error: '' @ msg), GFinished (- 1)])
                | Done _ \<Rightarrow>
                    (case wait_gui c of
                       Never \<Rightarrow> Blocked evs
                     | Raise msg \<Rightarrow>
                         Returns (evs @ [GError (''Error: '' @ msg), GFinished (- 1)])
                     | Done rc \<Rightarrow> Returns (evs @ [GFinished rc])))))"

section \<open>What a child that writes and exits gives its parent\<close>

text \<open>
  A child that writes texts, in this order and each to one of its two streams, and
  then exits on its own with an exit status. The texts are what the parent's
  decoder makes of them: a child whose output does not decode is not of this kind.
\<close>

datatype stream = Stdout | Stderr

record child =
  writes :: "(stream \<times> string) list"
  returncode :: int

definition pipe_text :: "stream \<Rightarrow> child \<Rightarrow> string" where
  "pipe_text s c = concat (map snd (filter (\<lambda>w. fst w = s) (writes c)))"

definition merged_text :: "child \<Rightarrow> string" where
  "merged_text c = concat (map snd (writes c))"

text \<open>
  With one pipe for both streams, read to its end: the parent reads the texts in
  the order of the writes, the stream closes and \<open>wait\<close> returns the exit status.
\<close>

definition gui_view :: "child \<Rightarrow> gui_child" where
  "gui_view c =
     \<lparr>merged_lines = readlines (merged_text c), merged_end = Done (),
      wait_gui = Done (returncode c)\<rparr>"

text \<open>
  With a pipe for each stream, of which the parent reads the standard output alone
  until the child has exited: a pipe holds \<open>cap\<close> characters unread, and the write
  to the standard error that exceeds them blocks the child for ever. The function
  gives the text the child has written to its standard output when it exits or
  blocks, and whether it blocks.
\<close>

fun stdout_until_block :: "nat \<Rightarrow> nat \<Rightarrow> (stream \<times> string) list \<Rightarrow> string \<times> bool" where
  "stdout_until_block cap used [] = ([], False)"
| "stdout_until_block cap used ((Stdout, t) # ws) =
     (case stdout_until_block cap used ws of (out, blocks) \<Rightarrow> (t @ out, blocks))"
| "stdout_until_block cap used ((Stderr, t) # ws) =
     (if cap < used + length t then ([], True)
      else stdout_until_block cap (used + length t) ws)"

text \<open>
  A child that blocks never closes its standard output: the parent is given the
  lines that are complete, and the next read never returns.
\<close>

definition main_view :: "nat \<Rightarrow> child \<Rightarrow> main_child" where
  "main_view cap c =
     (case stdout_until_block cap 0 (writes c) of
        (out, True) \<Rightarrow>
          \<lparr>out_lines = filter (\<lambda>l. l \<noteq> [] \<and> last l = CHR 0x0A) (readlines out),
           out_end = Never, wait_result = Never, err_read = Never\<rparr>
      | (out, False) \<Rightarrow>
          \<lparr>out_lines = readlines out, out_end = Done (),
           wait_result = Done (returncode c), err_read = Done (pipe_text Stderr c)\<rparr>)"

section \<open>Stopping a runner (poidh_gui.py)\<close>

text \<open>
  A process as the operating system has it: whether it is alive, in how many
  milliseconds it will have exited if nothing more is done to it (\<open>None\<close>: it will
  not), and what it has been sent.
\<close>

datatype os_signal = SIGTERM | SIGKILL | TerminateProcess

record proc =
  alive :: bool
  exits_in :: "nat option"
  signals :: "os_signal list"

text \<open>
  A \<open>subprocess.Popen\<close> handle of a child started with \<open>shell=True\<close>. The process of
  the handle is the shell; \<open>worker\<close> is the process of the command when the shell
  runs it as a child of its own, and \<open>None\<close> when the shell has replaced itself by
  the command. \<open>terminate\<close>, \<open>kill\<close> and \<open>wait\<close> act on the process of the
  handle alone. \<open>waited\<close> is the time the parent has spent in \<open>wait\<close>.
\<close>

datatype platform = Posix | Windows

record popen =
  platform :: platform
  handle :: proc
  worker :: "proc option"
  waited :: nat

text \<open>
  \<open>terminate()\<close>: on POSIX the signal SIGTERM, which the process may handle or
  ignore; on Windows the call TerminateProcess, which ends it. Nothing is sent to a
  process that has exited.
\<close>

definition popen_terminate :: "popen \<Rightarrow> popen" where
  "popen_terminate p =
     (if alive (handle p) then
        (case platform p of
           Posix \<Rightarrow> p\<lparr>handle := (handle p)\<lparr>signals := signals (handle p) @ [SIGTERM]\<rparr>\<rparr>
         | Windows \<Rightarrow>
             p\<lparr>handle := (handle p)\<lparr>alive := False, exits_in := None,
                    signals := signals (handle p) @ [TerminateProcess]\<rparr>\<rparr>)
      else p)"

text \<open>\<open>kill()\<close>: on POSIX the signal SIGKILL; on Windows \<open>kill\<close> is \<open>terminate\<close>.\<close>

definition popen_kill :: "popen \<Rightarrow> popen" where
  "popen_kill p =
     (if alive (handle p) then
        (case platform p of
           Posix \<Rightarrow>
             p\<lparr>handle := (handle p)\<lparr>alive := False, exits_in := None,
                    signals := signals (handle p) @ [SIGKILL]\<rparr>\<rparr>
         | Windows \<Rightarrow> popen_terminate p)
      else p)"

text \<open>\<open>wait(timeout=t)\<close>, \<open>t\<close> in milliseconds: the handle, and the exception raised, if any.\<close>

definition popen_wait :: "nat \<Rightarrow> popen \<Rightarrow> popen \<times> py_exception option" where
  "popen_wait t p =
     (if \<not> alive (handle p) then (p, None)
      else case exits_in (handle p) of
             Some d \<Rightarrow>
               if d \<le> t then
                 (p\<lparr>handle := (handle p)\<lparr>alive := False, exits_in := None\<rparr>,
                    waited := waited p + d\<rparr>, None)
               else
                 (p\<lparr>handle := (handle p)\<lparr>exits_in := Some (d - t)\<rparr>,
                    waited := waited p + t\<rparr>, Some TimeoutExpired)
           | None \<Rightarrow> (p\<lparr>waited := waited p + t\<rparr>, Some TimeoutExpired))"

record gui_process_manager =
  command_line :: string
  cwd :: string
  process :: "popen option"
  running :: bool

text \<open>
  \<open>ProcessManager.stop\<close>; the source's \<open>timeout=5\<close> is in seconds. The bare
  \<open>except:\<close> is reached here by the timeout of \<open>wait\<close>.
\<close>

definition gui_ProcessManager_stop :: "gui_process_manager \<Rightarrow> gui_process_manager" where
  "gui_ProcessManager_stop pm =
     (let pm1 = pm\<lparr>running := False\<rparr>
      in case process pm1 of
           None \<Rightarrow> pm1
         | Some p \<Rightarrow>
             (case popen_wait (5 * 1000) (popen_terminate p) of
                (p1, None) \<Rightarrow> pm1\<lparr>process := Some p1\<rparr>
              | (p1, Some e) \<Rightarrow> pm1\<lparr>process := Some (popen_kill p1)\<rparr>))"

section \<open>The bounty tab (poidh_gui.py)\<close>

text \<open>
  The paragraphs of the launch log: the two lines \<open>launch_bounty\<close> writes, a line of
  output, a reported error, and the status line of \<open>on_process_finished\<close>.
\<close>

datatype log_block =
    Launching string
  | Dashes nat
  | LogText string
  | LogError string
  | StatusSuccess
  | StatusFailed int

record bounty_tab =
  launch_log :: "log_block list"
  bounty_process :: "gui_process_manager option"
  bounty_threads :: "(gui_process_manager \<times> thread_state) list"

text \<open>
  \<open>BountyTab.launch_bounty\<close>, with the template selected, the reward as the text the
  f-string gives it when the override is checked, and the project root.
\<close>

definition launch_bounty :: "string \<Rightarrow> string option \<Rightarrow> string \<Rightarrow> bounty_tab \<Rightarrow> bounty_tab" where
  "launch_bounty template reward_override project_root tab =
     (let reward = (case reward_override of Some r \<Rightarrow> '' -- --reward '' @ r | None \<Rightarrow> []);
          cmd = ''npm run agent '' @ template @ reward;
          pm = \<lparr>command_line = cmd, cwd = project_root, process = None, running = True\<rparr>
      in tab\<lparr>launch_log := [Launching cmd, Dashes 60],
             bounty_process := Some pm,
             bounty_threads := bounty_threads tab @ [(pm, ThreadRunning)]\<rparr>)"

text \<open>
  The slots \<open>log_message\<close>, \<open>log_error\<close> and \<open>on_process_finished\<close>, on a signal of
  the thread started \<open>i\<close>-th.
\<close>

definition BountyTab_receive :: "nat \<Rightarrow> gui_signal \<Rightarrow> bounty_tab \<Rightarrow> bounty_tab" where
  "BountyTab_receive i sig tab =
     (case sig of
        GOutput t \<Rightarrow> tab\<lparr>launch_log := launch_log tab @ [LogText t]\<rparr>
      | GError t \<Rightarrow> tab\<lparr>launch_log := launch_log tab @ [LogError t]\<rparr>
      | GFinished code \<Rightarrow>
          tab\<lparr>launch_log := launch_log tab @ [if code = 0 then StatusSuccess else StatusFailed code],
              bounty_threads := finish_thread i (bounty_threads tab)\<rparr>)"

section \<open>Properties of the command-line interface\<close>

lemma print_entries_all:
  "map audit_line es = map Inr ls \<Longrightarrow> print_entries es out = (out @ ls, None)"
proof (induction es arbitrary: ls out)
  case Nil
  then show ?case by simp
next
  case (Cons e es)
  then obtain l ls' where ls: "ls = l # ls'" by (cases ls) auto
  with Cons.prems have "audit_line e = Inr l" "map audit_line es = map Inr ls'" by auto
  with Cons.IH ls show ?case by simp
qed

lemma audit_line_is_AuditLine:
  "audit_line e = Inr l \<Longrightarrow> \<exists>ts a. l = AuditLine ts a"
  by (auto simp: audit_line_def split: sum.splits)

lemma rendered_lines_are_entries:
  assumes "map audit_line es = map Inr ls"
  shows "entries_printed (AuditTitle limit # Rule 80 # ls) = length ls"
proof -
  from assms have len: "length es = length ls" by (metis length_map)
  have "\<exists>ts a. l = AuditLine ts a" if "l \<in> set ls" for l
  proof -
    from that obtain i where i: "i < length ls" "ls ! i = l" by (auto simp: in_set_conv_nth)
    with assms len have "audit_line (es ! i) = Inr l" by (metis nth_map)
    then show ?thesis by (rule audit_line_is_AuditLine)
  qed
  then have "\<forall>l \<in> set ls. (case l of AuditLine _ _ \<Rightarrow> True | _ \<Rightarrow> False)"
    by force
  then have "filter (\<lambda>l. case l of AuditLine _ _ \<Rightarrow> True | _ \<Rightarrow> False) ls = ls"
    by (simp add: filter_id_conv)
  then show ?thesis by (simp add: entries_printed_def)
qed

lemma slice_from_neg:
  "1 \<le> limit \<Longrightarrow> slice_from (- limit) xs = drop (length xs - nat limit) xs"
  by (auto simp: slice_from_def Let_def max_def nat_diff_distrib' intro!: arg_cong2[where f=drop])

lemma slice_from_zero: "slice_from 0 xs = xs"
  by (simp add: slice_from_def)

lemma slice_to_take: "0 \<le> n \<Longrightarrow> slice_to n xs = take (nat n) xs"
  by (auto simp: slice_to_def Let_def min_def)

lemma audit_show_document:
  assumes "dict_get data ''entries'' (JArr []) = Inr (JArr es)"
      and "map audit_line (slice_from (- limit) es) = map Inr ls"
  shows "audit_show (Document data) limit = (AuditTitle limit # Rule 80 # ls, 0)"
  using assms by (simp add: audit_show_def print_entries_all)

lemma audit_show_last:
  assumes "1 \<le> limit"
      and "dict_get data ''entries'' (JArr []) = Inr (JArr es)"
      and "map audit_line es = map Inr ls"
  shows "audit_show (Document data) limit
           = (AuditTitle limit # Rule 80 # drop (length es - nat limit) ls, 0)"
proof -
  from assms(3) have "map audit_line (drop (length es - nat limit) es)
                        = map Inr (drop (length es - nat limit) ls)"
    by (simp add: drop_map[symmetric])
  with assms(1) have "map audit_line (slice_from (- limit) es)
                        = map Inr (drop (length es - nat limit) ls)"
    by (simp add: slice_from_neg)
  from audit_show_document[OF assms(2) this] show ?thesis .
qed

text \<open>
  C6. For a limit of at least 1 and an audit document whose \<open>entries\<close> (absent: none)
  all render, \<open>audit_show\<close> prints, after its two heading lines, the renderings of
  the last \<open>min limit total\<close> entries of the document, in the document's order (the
  most recent, which the document lists last, is printed last), and returns 0.
  Here \<open>ls\<close> are the renderings of all entries, in the document's order.
\<close>

theorem audit_show_recent:
  assumes "1 \<le> limit"
      and "dict_get data ''entries'' (JArr []) = Inr (JArr es)"
      and "map audit_line es = map Inr ls"
  shows "audit_show (Document data) limit
           = (AuditTitle limit # Rule 80 # drop (length es - nat limit) ls, 0)
         \<and> length (drop (length es - nat limit) ls) = min (nat limit) (length es)"
proof -
  from assms(3) have "length ls = length es" by (metis length_map)
  with audit_show_last[OF assms] show ?thesis by auto
qed

text \<open>The scenario of the spec: a limit of 5 on a document of 3 entries, oldest first.\<close>

theorem audit_show_recent_witness:
  "audit_show (Document (JObj [(''entries'', JArr
      [JObj [(''timestamp'', JStr ''2024-01-01T10:00:00.000Z''), (''action'', JStr ''BOUNTY_CREATED'')],
       JObj [(''timestamp'', JStr ''2024-01-02T11:30:00.000Z''), (''action'', JStr ''SUBMISSION'')],
       JObj [(''action'', JStr ''PAYOUT_SUCCESS'')]])])) 5
   = ([AuditTitle 5, Rule 80,
       AuditLine (JStr ''2024-01-01T10:00:00'') (JStr ''BOUNTY_CREATED''),
       AuditLine (JStr ''2024-01-02T11:30:00'') (JStr ''SUBMISSION''),
       AuditLine (JStr ''?'') (JStr ''PAYOUT_SUCCESS'')], 0)"
  using audit_show_recent [of 5
      "JObj [(''entries'', JArr
        [JObj [(''timestamp'', JStr ''2024-01-01T10:00:00.000Z''), (''action'', JStr ''BOUNTY_CREATED'')],
         JObj [(''timestamp'', JStr ''2024-01-02T11:30:00.000Z''), (''action'', JStr ''SUBMISSION'')],
         JObj [(''action'', JStr ''PAYOUT_SUCCESS'')]])]"
      "[JObj [(''timestamp'', JStr ''2024-01-01T10:00:00.000Z''), (''action'', JStr ''BOUNTY_CREATED'')],
        JObj [(''timestamp'', JStr ''2024-01-02T11:30:00.000Z''), (''action'', JStr ''SUBMISSION'')],
        JObj [(''action'', JStr ''PAYOUT_SUCCESS'')]]"
      "[AuditLine (JStr ''2024-01-01T10:00:00'') (JStr ''BOUNTY_CREATED''),
        AuditLine (JStr ''2024-01-02T11:30:00'') (JStr ''SUBMISSION''),
        AuditLine (JStr ''?'') (JStr ''PAYOUT_SUCCESS'')]"]
  by (simp add: audit_line_def slice_to_def)

text \<open>
  C9. For an audit document whose \<open>entries\<close> all render, \<open>audit_show\<close> with limit 0
  prints every entry of the document (the slice \<open>[-0:]\<close> is the whole list), and with
  a limit of at least 1 it prints exactly \<open>min limit total\<close> entries.
\<close>

theorem audit_show_limit_zero:
  assumes "dict_get data ''entries'' (JArr []) = Inr (JArr es)"
      and "map audit_line es = map Inr ls"
  shows "audit_show (Document data) 0 = (AuditTitle 0 # Rule 80 # ls, 0)
         \<and> entries_printed (fst (audit_show (Document data) 0)) = length es
         \<and> (\<forall>limit. 1 \<le> limit \<longrightarrow>
              entries_printed (fst (audit_show (Document data) limit)) = min (nat limit) (length es))"
proof -
  from assms(2) have len: "length ls = length es" by (metis length_map)
  from assms(2) have "map audit_line (slice_from (- 0) es) = map Inr ls"
    by (simp add: slice_from_zero)
  from audit_show_document[OF assms(1) this]
  have zero: "audit_show (Document data) 0 = (AuditTitle 0 # Rule 80 # ls, 0)" .
  have count0: "entries_printed (fst (audit_show (Document data) 0)) = length es"
    using zero rendered_lines_are_entries[OF assms(2)] len by simp
  have "entries_printed (fst (audit_show (Document data) limit)) = min (nat limit) (length es)"
    if "1 \<le> limit" for limit
  proof -
    let ?k = "length es - nat limit"
    from assms(2) have sel: "map audit_line (drop ?k es) = map Inr (drop ?k ls)"
      by (simp add: drop_map[symmetric])
    from audit_show_last[OF that assms]
    have "entries_printed (fst (audit_show (Document data) limit))
            = entries_printed (AuditTitle limit # Rule 80 # drop ?k ls)" by simp
    also have "\<dots> = length (drop ?k ls)" by (rule rendered_lines_are_entries[OF sel])
    also have "\<dots> = min (nat limit) (length es)" using len by auto
    finally show ?thesis .
  qed
  with zero count0 show ?thesis by blast
qed

theorem audit_show_limit_zero_witness:
  "audit_show (Document (JObj [(''entries'', JArr
      [JObj [(''timestamp'', JStr ''t1''), (''action'', JStr ''A'')],
       JObj [(''timestamp'', JStr ''t2''), (''action'', JStr ''B'')]])])) 0
   = ([AuditTitle 0, Rule 80, AuditLine (JStr ''t1'') (JStr ''A''),
       AuditLine (JStr ''t2'') (JStr ''B'')], 0)
   \<and> entries_printed (fst (audit_show (Document (JObj [(''entries'', JArr
      [JObj [(''timestamp'', JStr ''t1''), (''action'', JStr ''A'')],
       JObj [(''timestamp'', JStr ''t2''), (''action'', JStr ''B'')]])])) 1)) = 1"
  using audit_show_limit_zero [of
      "JObj [(''entries'', JArr
        [JObj [(''timestamp'', JStr ''t1''), (''action'', JStr ''A'')],
         JObj [(''timestamp'', JStr ''t2''), (''action'', JStr ''B'')]])]"
      "[JObj [(''timestamp'', JStr ''t1''), (''action'', JStr ''A'')],
        JObj [(''timestamp'', JStr ''t2''), (''action'', JStr ''B'')]]"
      "[AuditLine (JStr ''t1'') (JStr ''A''), AuditLine (JStr ''t2'') (JStr ''B'')]"]
  by (simp add: audit_line_def slice_to_def)

text \<open>
  C10, as stated, fails on the sentinel: a masked key whose value is the text
  \<open>(not set)\<close> is printed in full, and a value that differs from it only beyond the
  first four characters is printed differently.
\<close>

theorem config_show_sentinel_counterexample:
  "config_show [''BOT_PRIVATE_KEY'' \<mapsto> ''(not set)'']
     \<noteq> config_show [''BOT_PRIVATE_KEY'' \<mapsto> ''(not_set)'']
   \<and> take 4 ''(not set)'' = take 4 ''(not_set)''
   \<and> fst (config_show [''BOT_PRIVATE_KEY'' \<mapsto> ''(not set)'']) ! 3
       = OutLine (config_line ''BOT_PRIVATE_KEY'' ''(not set)'')"
  by (simp add: config_show_def config_keys_def getenv_def shown_value_def masked_def
      config_line_def slice_to_def)

lemma shown_value_masked:
  "masked key \<Longrightarrow> v \<noteq> ''(not set)'' \<Longrightarrow> shown_value key v = take 4 v @ ''...''"
  by (simp add: shown_value_def slice_to_take)

lemma shown_value_agree:
  assumes "masked key \<longrightarrow> env1 key \<noteq> Some ''(not set)'' \<and> env2 key \<noteq> Some ''(not set)''"
      and "if masked key then map_option (take 4) (env1 key) = map_option (take 4) (env2 key)
           else env1 key = env2 key"
  shows "shown_value key (getenv env1 key ''(not set)'')
           = shown_value key (getenv env2 key ''(not set)'')"
proof (cases "masked key")
  case False
  with assms(2) show ?thesis by (simp add: getenv_def)
next
  case True
  show ?thesis
  proof (cases "env1 key")
    case None
    with True assms(2) have "env2 key = None" by simp
    with None show ?thesis by (simp add: getenv_def)
  next
    case (Some v1)
    with True assms(2) obtain v2 where v2: "env2 key = Some v2" "take 4 v1 = take 4 v2"
      by (cases "env2 key") auto
    from True assms(1) Some v2 have "v1 \<noteq> ''(not set)''" "v2 \<noteq> ''(not set)''" by auto
    with True Some v2 show ?thesis by (simp add: getenv_def shown_value_masked)
  qed
qed

text \<open>
  C10, amended. When no key that \<open>config_show\<close> masks holds the text \<open>(not set)\<close>
  as its value: two environments that agree on the unmasked keys shown, and on
  whether each masked key is set and on the first four characters of its value,
  give the same output; and the value of a masked key that is set is shown as its
  first four characters followed by three dots. The text \<open>(not set)\<close> itself is
  shown in full, whatever the key.
\<close>

theorem config_show_masks:
  assumes "\<forall>key \<in> set config_keys. masked key \<longrightarrow>
             env1 key \<noteq> Some ''(not set)'' \<and> env2 key \<noteq> Some ''(not set)''"
      and "\<forall>key \<in> set config_keys.
             if masked key then map_option (take 4) (env1 key) = map_option (take 4) (env2 key)
             else env1 key = env2 key"
  shows "config_show env1 = config_show env2
         \<and> (\<forall>key \<in> set config_keys. \<forall>v. masked key \<and> env1 key = Some v \<longrightarrow>
               shown_value key (getenv env1 key ''(not set)'') = take 4 v @ ''...'')
         \<and> shown_value any_key ''(not set)'' = ''(not set)''"
proof (intro conjI)
  have "shown_value key (getenv env1 key ''(not set)'')
          = shown_value key (getenv env2 key ''(not set)'')" if "key \<in> set config_keys" for key
    using that assms by (intro shown_value_agree) auto
  then show "config_show env1 = config_show env2"
    by (simp add: config_show_def)
next
  show "\<forall>key \<in> set config_keys. \<forall>v. masked key \<and> env1 key = Some v \<longrightarrow>
          shown_value key (getenv env1 key ''(not set)'') = take 4 v @ ''...''"
  proof (intro ballI allI impI)
    fix key v assume k: "key \<in> set config_keys" and m: "masked key \<and> env1 key = Some v"
    with assms(1) have "v \<noteq> ''(not set)''" by auto
    with m show "shown_value key (getenv env1 key ''(not set)'') = take 4 v @ ''...''"
      by (simp add: getenv_def shown_value_masked)
  qed
next
  show "shown_value any_key ''(not set)'' = ''(not set)''"
    by (simp add: shown_value_def)
qed

theorem config_show_masks_witness:
  "config_show [''BOT_PRIVATE_KEY'' \<mapsto> ''0xabcdef'']
     = config_show [''BOT_PRIVATE_KEY'' \<mapsto> ''0xab1234'']
   \<and> shown_value ''BOT_PRIVATE_KEY''
        (getenv [''BOT_PRIVATE_KEY'' \<mapsto> ''0xabcdef''] ''BOT_PRIVATE_KEY'' ''(not set)'')
       = ''0xab...''"
  using config_show_masks [of "[''BOT_PRIVATE_KEY'' \<mapsto> ''0xabcdef'']"
      "[''BOT_PRIVATE_KEY'' \<mapsto> ''0xab1234'']"]
  by (simp add: config_keys_def masked_def)

text \<open>
  C7, as stated, fails: for a missing audit document \<open>audit_show\<close> reports that none
  was found and returns 1; and a document that parses but holds an entry that is
  not an object gives a partial result, in the CLI (the entries before it are
  printed, then the error, and 1 is returned) and in the monitor (the entries
  before it are added to the list, then the status is set to offline).
\<close>

theorem audit_unavailable_counterexample:
  "audit_show Missing 20 = ([NoAuditTrail], 1)
   \<and> audit_show (Document (JObj [(''entries'',
        JArr [JObj [(''action'', JStr ''START'')], JNum 5])])) 20
       = ([AuditTitle 20, Rule 80, AuditLine (JStr ''?'') (JStr ''START''),
           ErrorLine AttributeError], 1)
   \<and> MonitorTab_refresh_logs (Document (JObj [(''entries'',
        JArr [JObj [(''action'', JStr ''START'')], JNum 5])]))
        \<lparr>log_list = [], status_label = Online\<rparr>
       = \<lparr>log_list = [ListItem (JStr ''?'') (JStr ''START'') DefaultColour],
          status_label = Offline\<rparr>"
  by (simp add: audit_show_def audit_line_def slice_to_def slice_from_def
      MonitorTab_refresh_logs_def monitor_item_def item_colour_def set_offline_def)

text \<open>
  C7, amended. For a missing audit document \<open>audit_show\<close> prints that none was
  found and returns 1, and the monitor leaves its view as it is. For a document
  that cannot be read or parsed \<open>audit_show\<close> prints the error alone and returns
  1, and the monitor keeps its list and shows offline. For a parsed value that is
  not an object \<open>audit_show\<close> prints its two heading lines and the error, no
  entry, and returns 1.
\<close>

theorem audit_unreadable_reported:
  "audit_show Missing limit = ([NoAuditTrail], 1)
   \<and> audit_show Unreadable limit = ([ErrorLine OSError], 1)
   \<and> audit_show Malformed limit = ([ErrorLine JSONDecodeError], 1)
   \<and> MonitorTab_refresh_logs Missing tab = tab
   \<and> log_list (MonitorTab_refresh_logs Unreadable tab) = log_list tab
   \<and> status_label (MonitorTab_refresh_logs Unreadable tab) = Offline
   \<and> log_list (MonitorTab_refresh_logs Malformed tab) = log_list tab
   \<and> status_label (MonitorTab_refresh_logs Malformed tab) = Offline
   \<and> ((\<forall>kvs. data \<noteq> JObj kvs) \<longrightarrow>
        audit_show (Document data) limit
          = ([AuditTitle limit, Rule 80, ErrorLine AttributeError], 1))"
proof -
  have "audit_show (Document data) limit
          = ([AuditTitle limit, Rule 80, ErrorLine AttributeError], 1)"
    if "\<forall>kvs. data \<noteq> JObj kvs"
    using that by (cases data) (simp_all add: audit_show_def)
  then show ?thesis
    by (simp add: audit_show_def MonitorTab_refresh_logs_def set_offline_def)
qed

theorem audit_unreadable_reported_witness:
  "audit_show (Document (JArr [])) 20
     = ([AuditTitle 20, Rule 80, ErrorLine AttributeError], 1)"
  using audit_unreadable_reported [of 20 "\<lparr>log_list = [], status_label = Offline\<rparr>" "JArr []"]
  by simp

section \<open>Properties of the log views\<close>

lemma concat_readlines_from: "concat (readlines_from cur s) = cur @ s"
  by (induction s arbitrary: cur) auto

lemma concat_readlines: "concat (readlines s) = s"
  by (simp add: readlines_def concat_readlines_from)

lemma readlines_from_nonempty: "[] \<notin> set (readlines_from cur s)"
  by (induction s arbitrary: cur) auto

lemma readlines_nonempty: "l \<in> set (readlines s) \<Longrightarrow> l \<noteq> []"
  using readlines_from_nonempty[of "[]" s] by (auto simp: readlines_def)

lemma add_items_all:
  "map monitor_item es = map Inr its \<Longrightarrow> add_items es shown = (shown @ its, None)"
proof (induction es arbitrary: its shown)
  case Nil
  then show ?case by simp
next
  case (Cons e es)
  then obtain it its' where its: "its = it # its'" by (cases its) auto
  with Cons.prems have "monitor_item e = Inr it" "map monitor_item es = map Inr its'" by auto
  with Cons.IH its show ?case by simp
qed

lemma slice_from_nat: "slice_from (int n) xs = drop n xs"
  by (simp add: slice_from_def Let_def min_def)

lemma slice_from_short: "length xs \<le> 20 \<Longrightarrow> slice_from (- 20) xs = xs"
  by (simp add: slice_from_def Let_def max_def)

lemma dashboard_view:
  assumes "audit_log \<noteq> ReadError"
  shows "logs_text (DashboardTab_refresh_logs (Text c) audit_log tab)
           = Plain (concat (drop (length (readlines c) - 50) (readlines c)))"
  using assms
  by (cases audit_log) (simp_all add: DashboardTab_refresh_logs_def slice_from_neg)

lemma monitor_catches_up:
  assumes entries: "dict_get data ''entries'' (JArr []) = Inr (JArr es)"
      and short: "length es \<le> 20"
      and items: "map monitor_item es = map Inr its"
      and shown: "log_list tab = take n its"
  shows "MonitorTab_refresh_logs (Document data) tab
           = tab\<lparr>log_list := its, status_label := Online\<rparr>"
proof -
  from items have len: "length its = length es" by (metis length_map)
  let ?k = "length (log_list tab)"
  from shown len have k: "?k = min n (length es)" by simp
  show ?thesis
  proof (cases "?k < length es")
    case True
    with k have n: "n < length es" "?k = n" by auto
    from items have "map monitor_item (drop n es) = map Inr (drop n its)"
      by (simp add: drop_map[symmetric])
    then have "add_items (drop n es) (take n its) = (take n its @ drop n its, None)"
      by (rule add_items_all)
    with True n entries short shown show ?thesis
      by (simp add: MonitorTab_refresh_logs_def slice_from_short slice_from_nat Let_def)
  next
    case False
    with k len shown have "log_list tab = its" by simp
    with False entries short show ?thesis
      by (simp add: MonitorTab_refresh_logs_def slice_from_short Let_def)
  qed
qed

text \<open>
  C2, as stated, fails: the dashboard keeps no cursor. A second poll of an unchanged
  file shows the line of the first poll again, where a poll from the cursor returns
  nothing; and a trailing partial line is shown at once, where a poll from the
  cursor withholds it.
\<close>

theorem refresh_logs_counterexample:
  "logs_text (DashboardTab_refresh_logs (Text ''a\<newline>'') Absent
      (DashboardTab_refresh_logs (Text ''a\<newline>'') Absent
         \<lparr>logs_text = Plain [], audit_text = Plain []\<rparr>)) = Plain ''a\<newline>''
   \<and> spec_poll 2 ''a\<newline>'' = ([], 2)
   \<and> logs_text (DashboardTab_refresh_logs (Text ''a\<newline>b'') Absent
         \<lparr>logs_text = Plain [], audit_text = Plain []\<rparr>) = Plain ''a\<newline>b''
   \<and> spec_poll 0 ''a\<newline>b'' = ([''a\<newline>''], 2)"
  by (simp add: DashboardTab_refresh_logs_def readlines_def slice_from_def spec_poll_def)

text \<open>
  C2, amended. A poll of the dashboard reads the whole log and replaces the view by
  the last 50 lines of the file, in the file's order and with a trailing partial
  line included (so the whole file, when it has at most 50 lines); provided the
  read of the second file does not fail, the view depends on nothing but the file's
  content at the poll. A poll of the monitor whose list shows the first \<open>n\<close>
  entries of an audit document of at most 20 entries, all of which render, adds
  exactly the entries the list lacks, in order, and shows online.
\<close>

theorem refresh_logs_view:
  "(audit_log \<noteq> ReadError \<longrightarrow>
      logs_text (DashboardTab_refresh_logs (Text c) audit_log dtab)
        = Plain (concat (drop (length (readlines c) - 50) (readlines c)))
      \<and> (length (readlines c) \<le> 50 \<longrightarrow>
           logs_text (DashboardTab_refresh_logs (Text c) audit_log dtab) = Plain c))
   \<and> (dict_get data ''entries'' (JArr []) = Inr (JArr es) \<and> length es \<le> 20
        \<and> map monitor_item es = map Inr its \<and> log_list mtab = take n its \<longrightarrow>
      MonitorTab_refresh_logs (Document data) mtab
        = mtab\<lparr>log_list := take n its @ drop n its, status_label := Online\<rparr>)"
proof (intro conjI impI)
  assume a: "audit_log \<noteq> ReadError"
  then show "logs_text (DashboardTab_refresh_logs (Text c) audit_log dtab)
               = Plain (concat (drop (length (readlines c) - 50) (readlines c)))"
    by (rule dashboard_view)
  assume "length (readlines c) \<le> 50"
  with dashboard_view[OF a] show "logs_text (DashboardTab_refresh_logs (Text c) audit_log dtab) = Plain c"
    by (simp add: concat_readlines)
next
  assume "dict_get data ''entries'' (JArr []) = Inr (JArr es) \<and> length es \<le> 20
            \<and> map monitor_item es = map Inr its \<and> log_list mtab = take n its"
  then show "MonitorTab_refresh_logs (Document data) mtab
               = mtab\<lparr>log_list := take n its @ drop n its, status_label := Online\<rparr>"
    using monitor_catches_up[of data es its mtab n] by simp
qed

theorem refresh_logs_view_witness:
  "logs_text (DashboardTab_refresh_logs (Text ''a\<newline>b'') Absent
      \<lparr>logs_text = Plain ''old'', audit_text = Plain []\<rparr>) = Plain ''a\<newline>b''
   \<and> MonitorTab_refresh_logs (Document (JObj [(''entries'', JArr
        [JObj [(''timestamp'', JStr ''t1''), (''action'', JStr ''LAUNCH'')],
         JObj [(''timestamp'', JStr ''t2''), (''action'', JStr ''PAYOUT_SUCCESS'')]])]))
        \<lparr>log_list = [ListItem (JStr ''t1'') (JStr ''LAUNCH'') DefaultColour],
         status_label = Offline\<rparr>
       = \<lparr>log_list = [ListItem (JStr ''t1'') (JStr ''LAUNCH'') DefaultColour,
                      ListItem (JStr ''t2'') (JStr ''PAYOUT_SUCCESS'') Green],
          status_label = Online\<rparr>"
  using refresh_logs_view [of Absent "''a\<newline>b''"
      "\<lparr>logs_text = Plain ''old'', audit_text = Plain []\<rparr>"
      "JObj [(''entries'', JArr
        [JObj [(''timestamp'', JStr ''t1''), (''action'', JStr ''LAUNCH'')],
         JObj [(''timestamp'', JStr ''t2''), (''action'', JStr ''PAYOUT_SUCCESS'')]])]"
      "[JObj [(''timestamp'', JStr ''t1''), (''action'', JStr ''LAUNCH'')],
        JObj [(''timestamp'', JStr ''t2''), (''action'', JStr ''PAYOUT_SUCCESS'')]]"
      "[ListItem (JStr ''t1'') (JStr ''LAUNCH'') DefaultColour,
        ListItem (JStr ''t2'') (JStr ''PAYOUT_SUCCESS'') Green]"
      "\<lparr>log_list = [ListItem (JStr ''t1'') (JStr ''LAUNCH'') DefaultColour],
        status_label = Offline\<rparr>"
      1]
  by (simp add: readlines_def monitor_item_def item_colour_def)

section \<open>Properties of the process runners\<close>

lemma stream_lines_running:
  "\<forall>i. flag i \<Longrightarrow> [] \<notin> set ls \<Longrightarrow>
     stream_lines flag i ls = (map (\<lambda>l. GOutput (rstrip l)) ls, False)"
  by (induction ls arbitrary: i) auto

lemma stdout_until_block_fits:
  "used + length (concat (map snd (filter (\<lambda>w. fst w = Stderr) ws))) \<le> cap \<Longrightarrow>
     stdout_until_block cap used ws
       = (concat (map snd (filter (\<lambda>w. fst w = Stdout) ws)), False)"
  by (induction cap used ws rule: stdout_until_block.induct) auto

lemma stdout_until_block_blocks:
  "used \<le> cap \<Longrightarrow>
   cap < used + length (concat (map snd (filter (\<lambda>w. fst w = Stderr) ws))) \<Longrightarrow>
     snd (stdout_until_block cap used ws)"
  by (induction cap used ws rule: stdout_until_block.induct) (auto split: prod.splits)

lemma main_view_fits:
  assumes "length (pipe_text Stderr c) \<le> cap"
  shows "main_view cap c =
           \<lparr>out_lines = readlines (pipe_text Stdout c), out_end = Done (),
            wait_result = Done (returncode c), err_read = Done (pipe_text Stderr c)\<rparr>"
  using assms stdout_until_block_fits[where used = 0 and cap = cap and ws = "writes c"]
  by (simp add: main_view_def pipe_text_def)

lemma main_view_blocks:
  assumes "cap < length (pipe_text Stderr c)"
  shows "out_end (main_view cap c) = Never"
proof -
  from assms have "snd (stdout_until_block cap 0 (writes c))"
    using stdout_until_block_blocks[where used = 0 and cap = cap and ws = "writes c"]
    by (simp add: pipe_text_def)
  then show ?thesis
    by (cases "stdout_until_block cap 0 (writes c)") (simp add: main_view_def)
qed

lemma main_run_returns:
  "main_ProcessManager_run sp = Returns evs \<Longrightarrow> evs \<noteq> [] \<and> last evs = MFinished"
  by (auto simp: main_ProcessManager_run_def Let_def split: spawn.splits call.splits if_splits)

lemma gui_run_returns:
  "gui_ProcessManager_run flag sp = Returns evs \<Longrightarrow>
     evs \<noteq> [] \<and> (\<exists>code. last evs = GFinished code)"
  by (auto simp: gui_ProcessManager_run_def split: spawn.splits call.splits prod.splits if_splits)

lemma gui_run_exit_code:
  assumes "merged_end c = Done ()" and "wait_gui c = Done rc"
  shows "\<exists>evs. gui_ProcessManager_run flag (Spawned c) = Returns (evs @ [GFinished rc])"
  using assms by (auto simp: gui_ProcessManager_run_def split: prod.splits)

lemma running_jobs_append:
  "running_jobs (ths @ [(pm, ThreadRunning)]) = running_jobs ths + 1"
  by (simp add: running_jobs_def)

lemma running_jobs_launches:
  "running_jobs (threads (foldl (\<lambda>t c. run_npm_command c t) tab cmds))
     = running_jobs (threads tab) + length cmds"
  by (induction cmds arbitrary: tab)
     (simp_all add: run_npm_command_def running_jobs_append Let_def)

lemma running_jobs_bounty_launches:
  "running_jobs (bounty_threads (foldl (\<lambda>t x. launch_bounty (fst x) (snd x) root t) btab xs))
     = running_jobs (bounty_threads btab) + length xs"
  by (induction xs arbitrary: btab)
     (simp_all add: launch_bounty_def running_jobs_append Let_def)

text \<open>
  C1, as stated, fails: neither tab looks at the job it holds before it starts
  another. Two launches in a row on one tab leave two jobs running.
\<close>

theorem double_launch_counterexample:
  "running_jobs (threads
      (run_npm_command [''npm'', ''run'', ''agent:monitor'']
        (run_npm_command [''npm'', ''run'', ''agent'']
          \<lparr>output_text = [], process_manager = None, threads = []\<rparr>))) = 2
   \<and> running_jobs (bounty_threads
      (launch_bounty ''mealPhoto'' None ''/srv/poidh''
        (launch_bounty ''proveOutside'' None ''/srv/poidh''
          \<lparr>launch_log = [], bounty_process = None, bounty_threads = []\<rparr>))) = 2"
  by (simp add: run_npm_command_def launch_bounty_def running_jobs_def Let_def)

text \<open>
  C1, amended. A launch never fails and never finds its tab busy: whatever the state
  of the tab, it starts one more job and makes the tab hold the new runner, so that
  a tab that launches \<open>k\<close> times while nothing finishes has \<open>k\<close> more jobs running.
\<close>

theorem launch_always_spawns:
  "running_jobs (threads (run_npm_command cmd tab)) = running_jobs (threads tab) + 1
   \<and> process_manager (run_npm_command cmd tab) = Some \<lparr>command = cmd\<rparr>
   \<and> running_jobs (threads (foldl (\<lambda>t c. run_npm_command c t) tab cmds))
       = running_jobs (threads tab) + length cmds
   \<and> running_jobs (bounty_threads (launch_bounty template reward root btab))
       = running_jobs (bounty_threads btab) + 1
   \<and> bounty_process (launch_bounty template reward root btab)
       = Some \<lparr>command_line = ''npm run agent '' @ template @
                   (case reward of Some r \<Rightarrow> '' -- --reward '' @ r | None \<Rightarrow> []),
                 cwd = root, process = None, running = True\<rparr>
   \<and> running_jobs (bounty_threads
         (foldl (\<lambda>t x. launch_bounty (fst x) (snd x) root t) btab launches))
       = running_jobs (bounty_threads btab) + length launches"
  by (simp add: running_jobs_launches running_jobs_bounty_launches)
     (simp add: run_npm_command_def launch_bounty_def running_jobs_append Let_def)




text \<open>
  C5, as stated, fails: \<open>run_npm_command\<close> creates the runner, keeps it and starts
  its thread before anything is spawned, and returns nothing to its caller; a
  spawn that fails is reported later, by the signals of that thread.
\<close>

theorem spawn_failure_counterexample:
  "process_manager (run_npm_command [''nope'']
      \<lparr>output_text = [], process_manager = None, threads = []\<rparr>)
     = Some \<lparr>command = [''nope'']\<rparr>
   \<and> output_text (run_npm_command [''nope'']
      \<lparr>output_text = [], process_manager = None, threads = []\<rparr>) = [RunningText ''nope'']
   \<and> main_ProcessManager_run (SpawnError ''No such file or directory'')
     = Returns [MError ''No such file or directory'', MFinished]"
  by (simp add: run_npm_command_def main_ProcessManager_run_def Let_def)

text \<open>
  C5, amended. A launch whose child cannot be spawned still creates the runner,
  keeps it in the tab and counts one more running job; the failure reaches the tab
  as the error signal with the text of the exception, followed by the finished
  signal, after which the job no longer runs and the output area shows the command,
  the error and the closing line; the next launch is accepted like any other.
\<close>

theorem spawn_failure_by_signal:
  "process_manager (run_npm_command cmd tab) = Some \<lparr>command = cmd\<rparr>
   \<and> running_jobs (threads (run_npm_command cmd tab)) = running_jobs (threads tab) + 1
   \<and> main_ProcessManager_run (SpawnError msg) = Returns [MError msg, MFinished]
   \<and> output_text (foldl (\<lambda>t s. AgentTab_receive (length (threads tab)) s t)
        (run_npm_command cmd tab) (emitted (main_ProcessManager_run (SpawnError msg))))
       = [RunningText (join_space cmd), ErrorText msg, CompletedText]
   \<and> running_jobs (threads (foldl (\<lambda>t s. AgentTab_receive (length (threads tab)) s t)
        (run_npm_command cmd tab) (emitted (main_ProcessManager_run (SpawnError msg)))))
       = running_jobs (threads tab)
   \<and> process_manager (run_npm_command cmd
        (foldl (\<lambda>t s. AgentTab_receive (length (threads tab)) s t)
          (run_npm_command cmd tab) (emitted (main_ProcessManager_run (SpawnError msg)))))
       = Some \<lparr>command = cmd\<rparr>"
  by (simp add: run_npm_command_def main_ProcessManager_run_def AgentTab_receive_def
      finish_thread_def running_jobs_def Let_def)







end
